theory Spec2Isabelle
  imports Main "HOL-Library.Word"
begin

section \<open>Beacon identity protocol: data model\<close>

text \<open>
  The development follows four source modules: the cryptographic utilities
  (\<^verbatim>\<open>lib/crypto\<close>: \<^verbatim>\<open>ARGON2_CONFIG\<close>, \<^verbatim>\<open>deriveKeyPair\<close>, \<^verbatim>\<open>generateSalt\<close>, \<^verbatim>\<open>toHex\<close>),
  the registry class (\<^verbatim>\<open>lib/registry\<close>), the identity functions (\<^verbatim>\<open>lib/identity\<close>:
  \<^verbatim>\<open>register\<close>, \<^verbatim>\<open>login\<close>) and the React hook \<^verbatim>\<open>useIdentity\<close>.

  A \<^verbatim>\<open>Uint8Array\<close> is a list of 8-bit words. A thrown JavaScript \<^verbatim>\<open>Error\<close> (a rejected
  promise of an \<^verbatim>\<open>async\<close> function) is a value \<open>Inl (Error msg)\<close>; a returned value is
  \<open>Inr v\<close>. The \<^verbatim>\<open>Result\<close> type of \<^verbatim>\<open>types/identity\<close> is a datatype of its own, so that a
  returned failure \<^verbatim>\<open>{ ok: false, error }\<close> and a thrown error are different outcomes.
\<close>

type_synonym bytes = "8 word list"

datatype exn = Error string

datatype ('a, 'e) Result = Success 'a | Failure 'e

record KeyPair =
  publicKey :: bytes
  privateKey :: bytes

record RegistryEntry =
  publicKey :: string
  salt :: string
  profileCid :: "string option"
  createdAt :: int

record IdentityState =
  username :: string
  keyPair :: KeyPair
  publicKeyHex :: string

record Argon2Config =
  parallelism :: nat
  iterations :: nat
  memorySize :: nat
  hashLength :: nat

text \<open>
  The object returned by \<^verbatim>\<open>generateKeyPairFromSeed\<close> of \<^verbatim>\<open>@libp2p/crypto/keys\<close>: the code
  reads \<^verbatim>\<open>privateKey.publicKey.raw\<close> and \<^verbatim>\<open>privateKey.raw\<close>.
\<close>

record Ed25519PrivateKey =
  publicKey_raw :: bytes
  raw :: bytes

text \<open>
  The functions imported from third-party libraries (\<^verbatim>\<open>hash-wasm\<close>, \<^verbatim>\<open>uint8arrays\<close>,
  \<^verbatim>\<open>@libp2p/crypto\<close>, the platform's \<^verbatim>\<open>TextEncoder\<close>) are parameters of the model. Decoders,
  the password hash and the key generation may throw; encoders do not.
\<close>

record prims =
  argon2id :: "bytes \<Rightarrow> bytes \<Rightarrow> Argon2Config \<Rightarrow> exn + string"
  generateKeyPairFromSeed :: "bytes \<Rightarrow> exn + Ed25519PrivateKey"
  fromString_base64 :: "string \<Rightarrow> exn + bytes"
  fromString_base16 :: "string \<Rightarrow> exn + bytes"
  toString_base64 :: "bytes \<Rightarrow> string"
  toString_base16 :: "bytes \<Rightarrow> string"
  TextEncoder_encode :: "string \<Rightarrow> bytes"

text \<open>
  The mutable environment of the program: the \<^verbatim>\<open>db\<close> field of the singleton
  \<^verbatim>\<open>Registry\<close> (\<open>None\<close> is \<^verbatim>\<open>null\<close>, before \<^verbatim>\<open>init\<close> or after \<^verbatim>\<open>stop\<close>; the key-value store
  is a map from usernames to entries), the stream read by \<^verbatim>\<open>crypto.getRandomValues\<close> with
  the number of bytes already drawn, and the clock read by \<^verbatim>\<open>Date.now()\<close>.
\<close>

record world =
  db :: "(string \<rightharpoonup> RegistryEntry) option"
  entropy :: "nat \<Rightarrow> 8 word"
  drawn :: nat
  now :: int

type_synonym 'a io = "world \<Rightarrow> (exn + 'a) \<times> world"

section \<open>Cryptographic utilities\<close>

definition ARGON2_CONFIG :: Argon2Config where
  "ARGON2_CONFIG = \<lparr>parallelism = 1, iterations = 2, memorySize = 4096, hashLength = 32\<rparr>"

definition generateEd25519FromSeed :: "prims \<Rightarrow> bytes \<Rightarrow> exn + KeyPair" where
  "generateEd25519FromSeed P seed =
     (case generateKeyPairFromSeed P seed of
        Inl e \<Rightarrow> Inl e
      | Inr priv \<Rightarrow>
          Inr \<lparr>KeyPair.publicKey = publicKey_raw priv, privateKey = raw priv\<rparr>)"

definition deriveKeyPair :: "prims \<Rightarrow> string \<Rightarrow> string \<Rightarrow> string \<Rightarrow> exn + KeyPair" where
  "deriveKeyPair P uname password salt' =
     (case fromString_base64 P salt' of
        Inl e \<Rightarrow> Inl e
      | Inr saltBytes \<Rightarrow>
          (let passwordBytes = TextEncoder_encode P password in
           case argon2id P passwordBytes saltBytes ARGON2_CONFIG of
             Inl e \<Rightarrow> Inl e
           | Inr hashHex \<Rightarrow>
               (case fromString_base16 P hashHex of
                  Inl e \<Rightarrow> Inl e
                | Inr seed \<Rightarrow> generateEd25519FromSeed P seed)))"

text \<open>\<^verbatim>\<open>crypto.getRandomValues\<close> overwrites every element of the array it is given.\<close>

definition getRandomValues :: "bytes \<Rightarrow> world \<Rightarrow> bytes \<times> world" where
  "getRandomValues arr w =
     (map (entropy w) [drawn w ..< drawn w + length arr],
      w\<lparr>drawn := drawn w + length arr\<rparr>)"

definition generateSalt :: "prims \<Rightarrow> world \<Rightarrow> string \<times> world" where
  "generateSalt P w =
     (case getRandomValues (replicate 16 0) w of
        (bytes, w') \<Rightarrow> (toString_base64 P bytes, w'))"

definition toHex :: "prims \<Rightarrow> bytes \<Rightarrow> string" where
  "toHex P bs = toString_base16 P bs"

section \<open>Registry\<close>

definition Registry_lookup :: "string \<Rightarrow> RegistryEntry option io" where
  "Registry_lookup uname w =
     (case db w of
        None \<Rightarrow> (Inl (Error ''Registry not initialized''), w)
      | Some store \<Rightarrow> (Inr (store uname), w))"

definition Registry_register :: "string \<Rightarrow> RegistryEntry \<Rightarrow> bool io" where
  "Registry_register uname entry w =
     (case db w of
        None \<Rightarrow> (Inl (Error ''Registry not initialized''), w)
      | Some store \<Rightarrow>
          (case store uname of
             Some existing \<Rightarrow> (Inr False, w)
           | None \<Rightarrow> (Inr True, w\<lparr>db := Some (store(uname \<mapsto> entry))\<rparr>)))"

section \<open>Identity functions\<close>

definition register ::
  "prims \<Rightarrow> string \<Rightarrow> string \<Rightarrow> (string \<Rightarrow> RegistryEntry option io) \<Rightarrow>
   (string \<Rightarrow> RegistryEntry \<Rightarrow> bool io) \<Rightarrow> (IdentityState, string) Result io" where
  "register P uname password lookupFn writeFn w =
     (case lookupFn uname w of
        (Inl e, w1) \<Rightarrow> (Inl e, w1)
      | (Inr (Some existing), w1) \<Rightarrow> (Inr (Failure ''Username already taken''), w1)
      | (Inr None, w1) \<Rightarrow>
          (case generateSalt P w1 of
             (salt', w2) \<Rightarrow>
               (case deriveKeyPair P uname password salt' of
                  Inl e \<Rightarrow> (Inl e, w2)
                | Inr keyPair' \<Rightarrow>
                    (let publicKeyHex' = toHex P (KeyPair.publicKey keyPair');
                         entry = \<lparr>publicKey = publicKeyHex', salt = salt',
                                  profileCid = None, createdAt = now w2\<rparr>
                     in case writeFn uname entry w2 of
                          (Inl e, w3) \<Rightarrow> (Inl e, w3)
                        | (Inr success, w3) \<Rightarrow>
                            if \<not> success
                            then (Inr (Failure
                                    ''Failed to register (username may have been claimed)''), w3)
                            else (Inr (Success \<lparr>username = uname, keyPair = keyPair',
                                                 publicKeyHex = publicKeyHex'\<rparr>), w3)))))"

definition login ::
  "prims \<Rightarrow> string \<Rightarrow> string \<Rightarrow> (string \<Rightarrow> RegistryEntry option io) \<Rightarrow>
   (IdentityState, string) Result io" where
  "login P uname password lookupFn w =
     (case lookupFn uname w of
        (Inl e, w1) \<Rightarrow> (Inl e, w1)
      | (Inr None, w1) \<Rightarrow> (Inr (Failure ''Username not found''), w1)
      | (Inr (Some entry), w1) \<Rightarrow>
          (case deriveKeyPair P uname password (salt entry) of
             Inl e \<Rightarrow> (Inl e, w1)
           | Inr keyPair' \<Rightarrow>
               (let publicKeyHex' = toHex P (KeyPair.publicKey keyPair')
                in if publicKeyHex' \<noteq> RegistryEntry.publicKey entry
                   then (Inr (Failure ''Invalid password''), w1)
                   else (Inr (Success \<lparr>username = uname, keyPair = keyPair',
                                        publicKeyHex = publicKeyHex'\<rparr>), w1))))"

section \<open>The identity hook\<close>

text \<open>
  The state of \<^verbatim>\<open>useIdentity\<close> is the stored identity (\<^verbatim>\<open>null\<close> is \<open>None\<close>); the hook's
  \<^verbatim>\<open>login\<close> and \<^verbatim>\<open>register\<close> call the identity functions with the methods of the singleton
  registry and call \<^verbatim>\<open>setIdentity\<close> on a success result only.
\<close>

type_synonym session = "IdentityState option \<times> world"

definition useIdentity_login ::
  "prims \<Rightarrow> string \<Rightarrow> string \<Rightarrow> session \<Rightarrow> (exn + (unit, string) Result) \<times> session" where
  "useIdentity_login P uname password s =
     (case s of (identity, w) \<Rightarrow>
        (case login P uname password Registry_lookup w of
           (Inl e, w') \<Rightarrow> (Inl e, (identity, w'))
         | (Inr (Success v), w') \<Rightarrow> (Inr (Success ()), (Some v, w'))
         | (Inr (Failure err), w') \<Rightarrow> (Inr (Failure err), (identity, w'))))"

definition useIdentity_register ::
  "prims \<Rightarrow> string \<Rightarrow> string \<Rightarrow> session \<Rightarrow> (exn + (unit, string) Result) \<times> session" where
  "useIdentity_register P uname password s =
     (case s of (identity, w) \<Rightarrow>
        (case register P uname password Registry_lookup Registry_register w of
           (Inl e, w') \<Rightarrow> (Inl e, (identity, w'))
         | (Inr (Success v), w') \<Rightarrow> (Inr (Success ()), (Some v, w'))
         | (Inr (Failure err), w') \<Rightarrow> (Inr (Failure err), (identity, w'))))"

definition logout :: "session \<Rightarrow> session" where
  "logout s = (case s of (identity, w) \<Rightarrow> (None, w))"

section \<open>An executable instance of the library interface\<close>

text \<open>
  To run the model on concrete inputs the library parameters need values. The two codecs
  are the real encodings (lowercase hexadecimal; the RFC 4648 base64 alphabet without
  padding). The password hash and the key generation are small checksums standing in for
  Argon2id and Ed25519; they keep the input checks of the libraries: the hash rejects an
  empty password and a salt of fewer than 8 bytes, the key generation wants a 32-byte
  seed. Every general theorem below is stated for an arbitrary instance \<open>P\<close>.
\<close>

definition hexchars :: string where
  "hexchars = ''0123456789abcdef''"

definition b64chars :: string where
  "b64chars = ''ABCDEFGHIJKLMNOPQRSTUVWXYZabcdefghijklmnopqrstuvwxyz0123456789+/''"

fun index_of :: "char \<Rightarrow> string \<Rightarrow> nat option" where
  "index_of c [] = None"
| "index_of c (d # ds) = (if c = d then Some 0 else map_option Suc (index_of c ds))"

fun hex_encode :: "bytes \<Rightarrow> string" where
  "hex_encode [] = []"
| "hex_encode (b # bs) =
     hexchars ! (unat b div 16) # hexchars ! (unat b mod 16) # hex_encode bs"

fun hex_decode :: "string \<Rightarrow> exn + bytes" where
  "hex_decode [] = Inr []"
| "hex_decode [c] = Inl (Error ''Unexpected end of data'')"
| "hex_decode (c # d # cs) =
     (case (index_of c hexchars, index_of d hexchars) of
        (Some h, Some l) \<Rightarrow>
          (case hex_decode cs of
             Inl e \<Rightarrow> Inl e
           | Inr bs \<Rightarrow> Inr (of_nat (16 * h + l) # bs))
      | _ \<Rightarrow> Inl (Error ''Non-base16 character''))"

fun b64_encode :: "bytes \<Rightarrow> string" where
  "b64_encode [] = []"
| "b64_encode [a] =
     [b64chars ! (unat a div 4), b64chars ! (unat a mod 4 * 16)]"
| "b64_encode [a, b] =
     [b64chars ! (unat a div 4), b64chars ! (unat a mod 4 * 16 + unat b div 16),
      b64chars ! (unat b mod 16 * 4)]"
| "b64_encode (a # b # c # bs) =
     b64chars ! (unat a div 4) # b64chars ! (unat a mod 4 * 16 + unat b div 16) #
     b64chars ! (unat b mod 16 * 4 + unat c div 64) # b64chars ! (unat c mod 64) #
     b64_encode bs"

fun b64_values :: "string \<Rightarrow> exn + nat list" where
  "b64_values [] = Inr []"
| "b64_values (c # cs) =
     (case index_of c b64chars of
        None \<Rightarrow> Inl (Error ''Non-base64 character'')
      | Some v \<Rightarrow> (case b64_values cs of Inl e \<Rightarrow> Inl e | Inr vs \<Rightarrow> Inr (v # vs)))"

fun b64_pack :: "nat list \<Rightarrow> exn + bytes" where
  "b64_pack [] = Inr []"
| "b64_pack [p] = Inl (Error ''Unexpected end of data'')"
| "b64_pack [p, q] = Inr [of_nat (p * 4 + q div 16)]"
| "b64_pack [p, q, r] = Inr [of_nat (p * 4 + q div 16), of_nat (q mod 16 * 16 + r div 4)]"
| "b64_pack (p # q # r # s # vs) =
     (case b64_pack vs of
        Inl e \<Rightarrow> Inl e
      | Inr bs \<Rightarrow>
          Inr (of_nat (p * 4 + q div 16) # of_nat (q mod 16 * 16 + r div 4) #
               of_nat (r mod 4 * 64 + s) # bs))"

definition b64_decode :: "string \<Rightarrow> exn + bytes" where
  "b64_decode str = (case b64_values str of Inl e \<Rightarrow> Inl e | Inr vs \<Rightarrow> b64_pack vs)"

definition ascii_encode :: "string \<Rightarrow> bytes" where
  "ascii_encode str = map (\<lambda>c. of_nat (of_char c)) str"

definition digest :: "bytes \<Rightarrow> bytes \<Rightarrow> Argon2Config \<Rightarrow> bytes" where
  "digest pw sb cfg =
     (let acc = foldl (\<lambda>a b. 31 * a + b + 7)
                  (of_nat (parallelism cfg + iterations cfg + memorySize cfg)) (pw @ sb)
      in map (\<lambda>i. acc * of_nat (2 * i + 1) + of_nat i) [0 ..< hashLength cfg])"

definition checked_hash :: "bytes \<Rightarrow> bytes \<Rightarrow> Argon2Config \<Rightarrow> exn + string" where
  "checked_hash pw sb cfg =
     (if pw = [] then Inl (Error ''Password must be specified'')
      else if length sb < 8 then Inl (Error ''Salt should be at least 8 bytes long'')
      else Inr (hex_encode (digest pw sb cfg)))"

definition unchecked_hash :: "bytes \<Rightarrow> bytes \<Rightarrow> Argon2Config \<Rightarrow> exn + string" where
  "unchecked_hash pw sb cfg = Inr (hex_encode (digest pw sb cfg))"

definition seeded_keygen :: "bytes \<Rightarrow> exn + Ed25519PrivateKey" where
  "seeded_keygen seed =
     (if length seed \<noteq> 32 then Inl (Error ''Seed must be 32 bytes'')
      else Inr \<lparr>publicKey_raw = map (\<lambda>b. 5 * b + 1) seed,
                raw = seed @ map (\<lambda>b. 5 * b + 1) seed\<rparr>)"

definition lib :: prims where
  "lib = \<lparr>argon2id = checked_hash, generateKeyPairFromSeed = seeded_keygen,
          fromString_base64 = b64_decode, fromString_base16 = hex_decode,
          toString_base64 = b64_encode, toString_base16 = hex_encode,
          TextEncoder_encode = ascii_encode\<rparr>"

definition lib_unchecked :: prims where
  "lib_unchecked = lib\<lparr>argon2id := unchecked_hash\<rparr>"

text \<open>Concrete environments: a counting byte stream, an initialised empty registry.\<close>

definition counting :: "nat \<Rightarrow> 8 word" where
  "counting i = of_nat (7 * i + 3)"

definition world0 :: world where
  "world0 = \<lparr>db = Some Map.empty, entropy = counting, drawn = 0, now = 1700000000000\<rparr>"

definition world_uninit :: world where
  "world_uninit = \<lparr>db = None, entropy = counting, drawn = 0, now = 1700000000000\<rparr>"

text \<open>
  A lost race: between the lookup and the claim of one \<^verbatim>\<open>register\<close> call, another writer's
  \<^verbatim>\<open>Registry.register\<close> for the same username lands first.
\<close>

definition rival_entry :: RegistryEntry where
  "rival_entry = \<lparr>publicKey = ''00ff'', salt = ''AAECAwQFBgcICQoLDA0ODw'',
                  profileCid = None, createdAt = 1699999999999\<rparr>"

definition claim_after_rival :: "string \<Rightarrow> RegistryEntry \<Rightarrow> bool io" where
  "claim_after_rival uname entry w =
     Registry_register uname entry (snd (Registry_register uname rival_entry w))"

text \<open>
  \<^verbatim>\<open>Registry.stop\<close> resets the store handle; a claim issued after the unmount cleanup of
  \<^verbatim>\<open>useHeliaNode\<close> has run meets a registry that is no longer initialised.
\<close>

definition Registry_stop :: "world \<Rightarrow> world" where
  "Registry_stop w = w\<lparr>db := None\<rparr>"

definition claim_after_stop :: "string \<Rightarrow> RegistryEntry \<Rightarrow> bool io" where
  "claim_after_stop uname entry w = Registry_register uname entry (Registry_stop w)"

definition world_taken :: world where
  "world_taken = snd (Registry_register ''alice'' rival_entry world0)"

text \<open>A password hash that answers for the parameter set of \<^verbatim>\<open>ARGON2_CONFIG\<close> only.\<close>

definition pinned_hash :: "bytes \<Rightarrow> bytes \<Rightarrow> Argon2Config \<Rightarrow> exn + string" where
  "pinned_hash pw sb cfg =
     (if cfg = ARGON2_CONFIG then checked_hash pw sb cfg
      else Inl (Error ''Unsupported parameters''))"

text \<open>
  A second instance in which no two inputs collide: the password hash is the hexadecimal
  form of the password bytes and the key generation takes the seed as the public key.
\<close>

definition plain_hash :: "bytes \<Rightarrow> bytes \<Rightarrow> Argon2Config \<Rightarrow> exn + string" where
  "plain_hash pw sb cfg = Inr (hex_encode pw)"

definition plain_keygen :: "bytes \<Rightarrow> exn + Ed25519PrivateKey" where
  "plain_keygen seed = Inr \<lparr>publicKey_raw = seed, raw = seed\<rparr>"

definition lib_plain :: prims where
  "lib_plain = lib\<lparr>argon2id := plain_hash, generateKeyPairFromSeed := plain_keygen\<rparr>"

text \<open>Whether an outcome is a returned success result.\<close>

definition succeeded :: "exn + ('a, 'e) Result \<Rightarrow> bool" where
  "succeeded r = (case r of Inr (Success v) \<Rightarrow> True | _ \<Rightarrow> False)"

section \<open>Shared lemmas\<close>

lemma succeededE:
  assumes "succeeded r"
  obtains v where "r = Inr (Success v)"
  using assms by (auto simp: succeeded_def split: sum.splits Result.splits)

lemma returned_value:
  assumes "\<not> isl x"
  shows "x = Inr (projr x)"
  using assms by (cases x) simp_all

lemma with_final_state:
  assumes "fst x = a"
  shows "x = (a, snd x)"
  using assms by (cases x) simp

lemma register_success_cases:
  assumes "fst (register P u p Registry_lookup Registry_register w) = Inr (Success st)"
  obtains store kp where "db w = Some store" "store u = None"
    "deriveKeyPair P u p (fst (generateSalt P w)) = Inr kp"
    "st = \<lparr>username = u, keyPair = kp, publicKeyHex = toHex P (KeyPair.publicKey kp)\<rparr>"
    "snd (register P u p Registry_lookup Registry_register w) =
       (snd (generateSalt P w))\<lparr>db := Some (store(u \<mapsto>
          \<lparr>publicKey = toHex P (KeyPair.publicKey kp), salt = fst (generateSalt P w),
           profileCid = None, createdAt = now (snd (generateSalt P w))\<rparr>))\<rparr>"
  using assms
  by (auto simp: register_def Registry_lookup_def Registry_register_def generateSalt_def
        getRandomValues_def Let_def
      split: option.splits sum.splits prod.splits if_splits)

lemma lookup_world0: "Registry_lookup uname world0 = (Inr None, world0)"
  by (simp add: Registry_lookup_def world0_def)

lemma lookup_world_taken:
  "Registry_lookup ''alice'' world_taken = (Inr (Some rival_entry), world_taken)"
  by (simp add: Registry_lookup_def Registry_register_def world_taken_def world0_def)

lemma db_after_salt: "db (snd (generateSalt P w)) = db w"
  by (simp add: generateSalt_def getRandomValues_def)

lemma index_of_nth:
  "index_of c xs = Some n \<Longrightarrow> n < length xs \<and> xs ! n = c"
  by (induction xs arbitrary: n) (auto split: if_splits)

lemma hexchars_nth_inj:
  assumes "i < 16" "j < 16" "hexchars ! i = hexchars ! j"
  shows "i = j"
proof -
  have "distinct hexchars" by (simp add: hexchars_def)
  moreover have "length hexchars = 16" by (simp add: hexchars_def)
  ultimately show ?thesis using assms by (simp add: nth_eq_iff_index_eq)
qed

lemma byte_halves:
  fixes b b' :: "8 word"
  assumes "unat b div 16 = unat b' div 16" "unat b mod 16 = unat b' mod 16"
  shows "b = b'"
proof -
  have "unat b = unat b'"
    using assms by (metis div_mult_mod_eq)
  then show ?thesis by (simp add: word_unat_eq_iff)
qed

lemma inj_hex_encode: "inj hex_encode"
proof (rule injI)
  fix xs ys :: bytes
  assume "hex_encode xs = hex_encode ys"
  then show "xs = ys"
  proof (induction xs arbitrary: ys)
    case Nil
    then show ?case by (cases ys) simp_all
  next
    case (Cons b bs)
    then obtain b' bs' where ys: "ys = b' # bs'" by (cases ys) auto
    have lt: "unat b < 256" "unat b' < 256"
      using unsigned_less [of b] unsigned_less [of b'] by simp_all
    from Cons.prems ys have
      h: "hexchars ! (unat b div 16) = hexchars ! (unat b' div 16)"
         "hexchars ! (unat b mod 16) = hexchars ! (unat b' mod 16)"
         "hex_encode bs = hex_encode bs'"
      by simp_all
    from lt have d: "unat b div 16 < 16" "unat b' div 16 < 16" by simp_all
    have "unat b div 16 = unat b' div 16"
      using d h(1) by (rule hexchars_nth_inj)
    moreover have "unat b mod 16 = unat b' mod 16"
      using h(2) by (intro hexchars_nth_inj) simp_all
    ultimately have "b = b'" by (rule byte_halves)
    with Cons.IH [OF h(3)] ys show ?case by simp
  qed
qed

lemma hex_pair_inj:
  fixes h l h' l' :: nat
  assumes "h < 16" "l < 16" "h' < 16" "l' < 16"
    "(of_nat (16 * h + l) :: 8 word) = of_nat (16 * h' + l')"
  shows "h = h' \<and> l = l'"
proof -
  have u: "unat (of_nat n :: 8 word) = n" if "n < 256" for n
    using that by (simp add: unat_of_nat)
  have lt: "16 * h + l < 256" "16 * h' + l' < 256" using assms by simp_all
  have "16 * h + l = unat (of_nat (16 * h + l) :: 8 word)"
    using u [OF lt(1)] by (simp only:)
  also have "\<dots> = unat (of_nat (16 * h' + l') :: 8 word)"
    using assms(5) by (simp only:)
  also have "\<dots> = 16 * h' + l'"
    using u [OF lt(2)] by (simp only:)
  finally have e: "16 * h + l = 16 * h' + l'" .
  have "(16 * h + l) div 16 = h" "(16 * h + l) mod 16 = l"
    using assms(2) by simp_all
  moreover have "(16 * h' + l') div 16 = h'" "(16 * h' + l') mod 16 = l'"
    using assms(4) by simp_all
  ultimately show ?thesis using e by metis
qed

lemma hex_decode_inj:
  "hex_decode xs = Inr bs \<Longrightarrow> hex_decode ys = Inr bs \<Longrightarrow> xs = ys"
proof (induction xs arbitrary: ys bs rule: hex_decode.induct)
  case 1
  then show ?case
    by (cases ys rule: hex_decode.cases) (auto split: option.splits sum.splits)
next
  case (2 c)
  then show ?case by simp
next
  case (3 c d cs)
  from "3.prems"(1) obtain h l bs' where
    x: "index_of c hexchars = Some h" "index_of d hexchars = Some l"
       "hex_decode cs = Inr bs'" "bs = of_nat (16 * h + l) # bs'"
    by (auto split: option.splits sum.splits)
  from "3.prems"(2) x(4) obtain c' d' cs' h' l' where
    y: "ys = c' # d' # cs'" "index_of c' hexchars = Some h'" "index_of d' hexchars = Some l'"
       "hex_decode cs' = Inr bs'" "(of_nat (16 * h + l) :: 8 word) = of_nat (16 * h' + l')"
    by (cases ys rule: hex_decode.cases) (auto split: option.splits sum.splits)
  have len: "length hexchars = 16" by (simp add: hexchars_def)
  from x(1,2) y(2,3) have b: "h < 16" "l < 16" "h' < 16" "l' < 16"
    and n: "hexchars ! h = c" "hexchars ! l = d" "hexchars ! h' = c'" "hexchars ! l' = d'"
    using index_of_nth len by fastforce+
  from hex_pair_inj [OF b y(5)] n have "c = c'" "d = d'" by auto
  moreover have "cs = cs'"
    using "3.IH" x y(4) by auto
  ultimately show ?case using y(1) by simp
qed

lemma inj_ascii_encode: "inj ascii_encode"
proof -
  have "inj (\<lambda>c. of_nat (of_char c) :: 8 word)"
  proof (rule injI)
    fix c d :: char
    assume "(of_nat (of_char c) :: 8 word) = of_nat (of_char d)"
    then have "unat (of_nat (of_char c) :: 8 word) = unat (of_nat (of_char d) :: 8 word)"
      by simp
    then have "(of_char c :: nat) mod 256 = of_char d mod 256"
      by (simp add: unat_of_nat)
    then show "c = d" by simp
  qed
  then have "inj (map (\<lambda>c. of_nat (of_char c) :: 8 word))" by simp
  moreover have "ascii_encode = map (\<lambda>c. of_nat (of_char c) :: 8 word)"
    by (rule ext) (simp add: ascii_encode_def)
  ultimately show ?thesis by simp
qed

lemma deriveKeyPair_collision_free:
  assumes enc: "inj (TextEncoder_encode P)"
    and hex: "inj (toString_base16 P)"
    and hash: "\<forall>pw pw' sb h. argon2id P pw sb ARGON2_CONFIG = Inr h \<and>
                 argon2id P pw' sb ARGON2_CONFIG = Inr h \<longrightarrow> pw = pw'"
    and dec: "\<forall>h h' sd. fromString_base16 P h = Inr sd \<and>
                 fromString_base16 P h' = Inr sd \<longrightarrow> h = h'"
    and gen: "\<forall>sd sd' k k'. generateKeyPairFromSeed P sd = Inr k \<and>
                 generateKeyPairFromSeed P sd' = Inr k' \<and>
                 publicKey_raw k = publicKey_raw k' \<longrightarrow> sd = sd'"
    and d1: "deriveKeyPair P u q s = Inr kp"
    and d2: "deriveKeyPair P u' q' s = Inr kp'"
    and eq: "toHex P (KeyPair.publicKey kp) = toHex P (KeyPair.publicKey kp')"
  shows "q = q'"
proof -
  from d1 obtain sb h sd k where
    a: "fromString_base64 P s = Inr sb"
       "argon2id P (TextEncoder_encode P q) sb ARGON2_CONFIG = Inr h"
       "fromString_base16 P h = Inr sd" "generateKeyPairFromSeed P sd = Inr k"
       "KeyPair.publicKey kp = publicKey_raw k"
    by (auto simp: deriveKeyPair_def generateEd25519FromSeed_def Let_def split: sum.splits)
  from d2 a(1) obtain h' sd' k' where
    b: "argon2id P (TextEncoder_encode P q') sb ARGON2_CONFIG = Inr h'"
       "fromString_base16 P h' = Inr sd'" "generateKeyPairFromSeed P sd' = Inr k'"
       "KeyPair.publicKey kp' = publicKey_raw k'"
    by (auto simp: deriveKeyPair_def generateEd25519FromSeed_def Let_def split: sum.splits)
  from eq hex have "KeyPair.publicKey kp = KeyPair.publicKey kp'"
    by (simp add: toHex_def inj_eq)
  with a(5) b(4) have "publicKey_raw k = publicKey_raw k'" by simp
  with gen a(4) b(3) have "sd = sd'" by blast
  with dec a(3) b(2) have "h = h'" by blast
  with hash a(2) b(1) have "TextEncoder_encode P q = TextEncoder_encode P q'" by blast
  with enc show ?thesis by (simp add: inj_eq)
qed

lemma lib_plain_injective:
  "inj (TextEncoder_encode lib_plain)"
  "inj (toString_base16 lib_plain)"
  "\<forall>pw pw' sb h. argon2id lib_plain pw sb ARGON2_CONFIG = Inr h \<and>
      argon2id lib_plain pw' sb ARGON2_CONFIG = Inr h \<longrightarrow> pw = pw'"
  "\<forall>h h' sd. fromString_base16 lib_plain h = Inr sd \<and>
      fromString_base16 lib_plain h' = Inr sd \<longrightarrow> h = h'"
  "\<forall>sd sd' k k'. generateKeyPairFromSeed lib_plain sd = Inr k \<and>
      generateKeyPairFromSeed lib_plain sd' = Inr k' \<and>
      publicKey_raw k = publicKey_raw k' \<longrightarrow> sd = sd'"
proof -
  show "inj (TextEncoder_encode lib_plain)"
    by (simp add: lib_plain_def lib_def inj_ascii_encode)
  show "inj (toString_base16 lib_plain)"
    by (simp add: lib_plain_def lib_def inj_hex_encode)
  show "\<forall>pw pw' sb h. argon2id lib_plain pw sb ARGON2_CONFIG = Inr h \<and>
      argon2id lib_plain pw' sb ARGON2_CONFIG = Inr h \<longrightarrow> pw = pw'"
    using inj_hex_encode by (auto simp: lib_plain_def plain_hash_def dest: injD)
  show "\<forall>h h' sd. fromString_base16 lib_plain h = Inr sd \<and>
      fromString_base16 lib_plain h' = Inr sd \<longrightarrow> h = h'"
    using hex_decode_inj by (auto simp: lib_plain_def lib_def)
  show "\<forall>sd sd' k k'. generateKeyPairFromSeed lib_plain sd = Inr k \<and>
      generateKeyPairFromSeed lib_plain sd' = Inr k' \<and>
      publicKey_raw k = publicKey_raw k' \<longrightarrow> sd = sd'"
    by (auto simp: lib_plain_def plain_keygen_def)
qed

section \<open>Round trip\<close>

text \<open>
  C1. If \<^verbatim>\<open>register(u, p)\<close> against the registry returns a success result, then
  \<^verbatim>\<open>login(u, p)\<close> run on the state that \<^verbatim>\<open>register\<close> left (no intervening write) returns
  a success result carrying the same identity: the same username, the same keypair and
  the same \<^verbatim>\<open>publicKeyHex\<close>.
\<close>

theorem register_then_login:
  assumes "fst (register P u p Registry_lookup Registry_register w) = Inr (Success st)"
  shows "fst (login P u p Registry_lookup
                (snd (register P u p Registry_lookup Registry_register w)))
         = Inr (Success st)"
  using assms
  by (elim register_success_cases) (simp add: login_def Registry_lookup_def Let_def)

theorem register_then_login_witness:
  "succeeded (fst (register lib ''alice'' ''hunter2'' Registry_lookup Registry_register world0)) \<and>
   fst (login lib ''alice'' ''hunter2'' Registry_lookup
          (snd (register lib ''alice'' ''hunter2'' Registry_lookup Registry_register world0)))
   = fst (register lib ''alice'' ''hunter2'' Registry_lookup Registry_register world0)"
proof -
  have s: "succeeded
      (fst (register lib ''alice'' ''hunter2'' Registry_lookup Registry_register world0))"
    by code_simp
  then obtain st where h:
    "fst (register lib ''alice'' ''hunter2'' Registry_lookup Registry_register world0)
       = Inr (Success st)"
    by (rule succeededE)
  from register_then_login [OF h] s h show ?thesis by simp
qed

section \<open>Derivation\<close>

text \<open>
  C2. Derivation is a function of the password and the salt alone: it reads no clock, no
  random source and no registry, so two calls with the same password and salt return the
  same keypair, and the username argument is ignored: any two usernames give the same
  outcome (the same keypair, or the same thrown error).
\<close>

theorem deriveKeyPair_username_independent:
  "deriveKeyPair P u1 p s = deriveKeyPair P u2 p s"
  by (simp add: deriveKeyPair_def)

section \<open>Collaborator failures\<close>

text \<open>
  Against a registry that has not been initialised, \<^verbatim>\<open>register\<close> and \<^verbatim>\<open>login\<close> do not return
  a failure result: the error thrown by \<^verbatim>\<open>Registry.lookup\<close> leaves them as a thrown error.
\<close>

theorem registry_failure_counterexample:
  "register lib ''alice'' ''hunter2'' Registry_lookup Registry_register world_uninit
     = (Inl (Error ''Registry not initialized''), world_uninit) \<and>
   login lib ''alice'' ''hunter2'' Registry_lookup world_uninit
     = (Inl (Error ''Registry not initialized''), world_uninit)"
  by (simp add: register_def login_def Registry_lookup_def world_uninit_def)

text \<open>
  C3 (amended). \<^verbatim>\<open>register\<close> and \<^verbatim>\<open>login\<close> do not translate collaborator failures. An
  error thrown by the lookup function is thrown on to the caller unchanged, by both
  functions; an error thrown by the write function is thrown on by \<^verbatim>\<open>register\<close>. With the
  registry's own methods before initialisation, both throw
  \<^verbatim>\<open>Registry not initialized\<close> and leave the state as it was. They throw nothing of
  their own: whenever the lookup function returns, key derivation (where it is reached)
  returns a keypair and, for \<^verbatim>\<open>register\<close>, the write function returns, both functions
  return a result. This holds for any lookup and write function, whatever the store
  behind them does.
\<close>

theorem registry_failure_propagates:
  "(lookupFn u w = (Inl e, wl) \<longrightarrow>
      register P u p lookupFn writeFn w = (Inl e, wl) \<and>
      login P u p lookupFn w = (Inl e, wl)) \<and>
   (lookupFn u w = (Inr None, wl) \<and> deriveKeyPair P u p (fst (generateSalt P wl)) = Inr kp \<and>
    writeFn u \<lparr>publicKey = toHex P (KeyPair.publicKey kp), salt = fst (generateSalt P wl),
               profileCid = None, createdAt = now (snd (generateSalt P wl))\<rparr>
      (snd (generateSalt P wl)) = (Inl e, wc) \<longrightarrow>
      register P u p lookupFn writeFn w = (Inl e, wc)) \<and>
   (db w = None \<longrightarrow>
      register P u p Registry_lookup Registry_register w
        = (Inl (Error ''Registry not initialized''), w) \<and>
      login P u p Registry_lookup w = (Inl (Error ''Registry not initialized''), w)) \<and>
   (lookupFn u w = (Inr (Some existing), wl) \<longrightarrow>
      \<not> isl (fst (register P u p lookupFn writeFn w))) \<and>
   (lookupFn u w = (Inr None, wl) \<and> deriveKeyPair P u p (fst (generateSalt P wl)) = Inr kp \<and>
    writeFn u \<lparr>publicKey = toHex P (KeyPair.publicKey kp), salt = fst (generateSalt P wl),
               profileCid = None, createdAt = now (snd (generateSalt P wl))\<rparr>
      (snd (generateSalt P wl)) = (Inr accepted, wc) \<longrightarrow>
      \<not> isl (fst (register P u p lookupFn writeFn w))) \<and>
   (lookupFn u w = (Inr None, wl) \<longrightarrow>
      \<not> isl (fst (login P u p lookupFn w))) \<and>
   (lookupFn u w = (Inr (Some existing), wl) \<and>
    deriveKeyPair P u p (salt existing) = Inr kp \<longrightarrow>
      \<not> isl (fst (login P u p lookupFn w)))"
proof (intro conjI impI)
  assume "lookupFn u w = (Inl e, wl)"
  then show "register P u p lookupFn writeFn w = (Inl e, wl)"
    and "login P u p lookupFn w = (Inl e, wl)"
    by (simp_all add: register_def login_def)
next
  assume "lookupFn u w = (Inr None, wl) \<and>
    deriveKeyPair P u p (fst (generateSalt P wl)) = Inr kp \<and>
    writeFn u \<lparr>publicKey = toHex P (KeyPair.publicKey kp), salt = fst (generateSalt P wl),
               profileCid = None, createdAt = now (snd (generateSalt P wl))\<rparr>
      (snd (generateSalt P wl)) = (Inl e, wc)"
  then show "register P u p lookupFn writeFn w = (Inl e, wc)"
    by (auto simp: register_def Let_def split: prod.splits)
next
  assume "db w = None"
  then show "register P u p Registry_lookup Registry_register w
        = (Inl (Error ''Registry not initialized''), w)"
    and "login P u p Registry_lookup w = (Inl (Error ''Registry not initialized''), w)"
    by (simp_all add: register_def login_def Registry_lookup_def)
next
  assume "lookupFn u w = (Inr (Some existing), wl)"
  then show "\<not> isl (fst (register P u p lookupFn writeFn w))"
    by (simp add: register_def)
next
  assume "lookupFn u w = (Inr None, wl) \<and>
    deriveKeyPair P u p (fst (generateSalt P wl)) = Inr kp \<and>
    writeFn u \<lparr>publicKey = toHex P (KeyPair.publicKey kp), salt = fst (generateSalt P wl),
               profileCid = None, createdAt = now (snd (generateSalt P wl))\<rparr>
      (snd (generateSalt P wl)) = (Inr accepted, wc)"
  then show "\<not> isl (fst (register P u p lookupFn writeFn w))"
    by (cases accepted) (auto simp: register_def Let_def split: prod.splits)
next
  assume "lookupFn u w = (Inr None, wl)"
  then show "\<not> isl (fst (login P u p lookupFn w))"
    by (simp add: login_def)
next
  assume "lookupFn u w = (Inr (Some existing), wl) \<and>
    deriveKeyPair P u p (salt existing) = Inr kp"
  then show "\<not> isl (fst (login P u p lookupFn w))"
    by (simp add: login_def Let_def)
qed

theorem registry_failure_propagates_witness:
  "fst (register lib ''alice'' ''hunter2'' Registry_lookup Registry_register world_uninit)
     = Inl (Error ''Registry not initialized'') \<and>
   fst (login lib ''alice'' ''hunter2'' Registry_lookup world_uninit)
     = Inl (Error ''Registry not initialized'') \<and>
   fst (register lib ''alice'' ''hunter2'' Registry_lookup claim_after_stop world0)
     = Inl (Error ''Registry not initialized'') \<and>
   \<not> isl (fst (register lib ''alice'' ''hunter2'' Registry_lookup Registry_register
                 world_taken)) \<and>
   \<not> isl (fst (register lib ''alice'' ''hunter2'' Registry_lookup Registry_register world0)) \<and>
   \<not> isl (fst (login lib ''alice'' ''hunter2'' Registry_lookup world0)) \<and>
   \<not> isl (fst (login lib ''alice'' ''hunter2'' Registry_lookup world_taken))"
proof -
  let ?s = "generateSalt lib world0"
  let ?kp = "projr (deriveKeyPair lib ''alice'' ''hunter2'' (fst ?s))"
  let ?entry = "\<lparr>publicKey = toHex lib (KeyPair.publicKey ?kp), salt = fst ?s,
                  profileCid = None, createdAt = now (snd ?s)\<rparr>"
  let ?kt = "projr (deriveKeyPair lib ''alice'' ''hunter2'' (salt rival_entry))"
  have l: "Registry_lookup ''alice'' world_uninit
             = (Inl (Error ''Registry not initialized''), world_uninit)"
    by (simp add: Registry_lookup_def world_uninit_def)
  have d: "db world_uninit = None"
    by (simp add: world_uninit_def)
  have nd: "\<not> isl (deriveKeyPair lib ''alice'' ''hunter2'' (fst ?s))"
    by code_simp
  have dk: "deriveKeyPair lib ''alice'' ''hunter2'' (fst ?s) = Inr ?kp"
    using nd by (rule returned_value)
  have "\<not> isl (deriveKeyPair lib ''alice'' ''hunter2'' (salt rival_entry))"
    by code_simp
  then have dt: "deriveKeyPair lib ''alice'' ''hunter2'' (salt rival_entry) = Inr ?kt"
    by (rule returned_value)
  have wr: "claim_after_stop ''alice'' ?entry (snd ?s)
            = (Inl (Error ''Registry not initialized''), Registry_stop (snd ?s))"
    by (simp add: claim_after_stop_def Registry_register_def Registry_stop_def)
  have "fst (Registry_register ''alice'' ?entry (snd ?s)) = Inr True"
    by (simp add: Registry_register_def db_after_salt world0_def)
  then have wa: "Registry_register ''alice'' ?entry (snd ?s)
                   = (Inr True, snd (Registry_register ''alice'' ?entry (snd ?s)))"
    by (rule with_final_state)
  from registry_failure_propagates
         [where lookupFn = Registry_lookup and u = "''alice''" and w = world_uninit
            and e = "Error ''Registry not initialized''" and wl = world_uninit
            and P = lib and p = "''hunter2''" and writeFn = Registry_register]
       l d
  have a: "fst (register lib ''alice'' ''hunter2'' Registry_lookup Registry_register world_uninit)
             = Inl (Error ''Registry not initialized'') \<and>
           fst (login lib ''alice'' ''hunter2'' Registry_lookup world_uninit)
             = Inl (Error ''Registry not initialized'')"
    by simp
  from registry_failure_propagates
         [where lookupFn = Registry_lookup and u = "''alice''" and w = world0
            and e = "Error ''Registry not initialized''" and wl = world0
            and P = lib and p = "''hunter2''" and writeFn = claim_after_stop
            and kp = ?kp and wc = "Registry_stop (snd ?s)"]
       lookup_world0 [of "''alice''"] dk wr
  have b: "fst (register lib ''alice'' ''hunter2'' Registry_lookup claim_after_stop world0)
             = Inl (Error ''Registry not initialized'')"
    by simp
  from registry_failure_propagates
         [where lookupFn = Registry_lookup and u = "''alice''" and w = world_taken
            and wl = world_taken and existing = rival_entry and P = lib
            and p = "''hunter2''" and writeFn = Registry_register and kp = ?kt]
       lookup_world_taken dt
  have c: "\<not> isl (fst (register lib ''alice'' ''hunter2'' Registry_lookup Registry_register
                        world_taken)) \<and>
           \<not> isl (fst (login lib ''alice'' ''hunter2'' Registry_lookup world_taken))"
    by blast
  from registry_failure_propagates
         [where lookupFn = Registry_lookup and u = "''alice''" and w = world0
            and wl = world0 and P = lib and p = "''hunter2''"
            and writeFn = Registry_register and kp = ?kp and accepted = True
            and wc = "snd (Registry_register ''alice'' ?entry (snd ?s))"]
       lookup_world0 [of "''alice''"] dk wa
  have f: "\<not> isl (fst (register lib ''alice'' ''hunter2'' Registry_lookup Registry_register
                        world0)) \<and>
           \<not> isl (fst (login lib ''alice'' ''hunter2'' Registry_lookup world0))"
    by blast
  from a b c f show ?thesis by simp
qed

section \<open>The two registration failures\<close>

text \<open>
  A claim rejected after a lost race and a username found by the initial lookup give two
  different error messages.
\<close>

theorem lost_race_message_counterexample:
  "fst (register lib ''alice'' ''hunter2'' Registry_lookup claim_after_rival world0)
     = Inr (Failure ''Failed to register (username may have been claimed)'') \<and>
   fst (register lib ''alice'' ''hunter2'' Registry_lookup Registry_register world_taken)
     = Inr (Failure ''Username already taken'') \<and>
   fst (register lib ''alice'' ''hunter2'' Registry_lookup claim_after_rival world0)
     \<noteq> fst (register lib ''alice'' ''hunter2'' Registry_lookup Registry_register world_taken)"
  by code_simp

text \<open>
  C4 (amended). When the initial lookup finds the username, \<^verbatim>\<open>register\<close> returns the
  failure \<^verbatim>\<open>Username already taken\<close>. When it reaches the claim step and the claim is
  rejected, it returns the failure
  \<^verbatim>\<open>Failed to register (username may have been claimed)\<close>. Both are returned failure
  results, and their messages differ.
\<close>

theorem lost_race_message:
  "(lookupFn u w = (Inr (Some existing), wl) \<longrightarrow>
      register P u p lookupFn writeFn w = (Inr (Failure ''Username already taken''), wl)) \<and>
   (lookupFn u w = (Inr None, wl) \<and> deriveKeyPair P u p (fst (generateSalt P wl)) = Inr kp \<and>
    writeFn u \<lparr>publicKey = toHex P (KeyPair.publicKey kp), salt = fst (generateSalt P wl),
               profileCid = None, createdAt = now (snd (generateSalt P wl))\<rparr>
      (snd (generateSalt P wl)) = (Inr False, wc) \<longrightarrow>
      register P u p lookupFn writeFn w
        = (Inr (Failure ''Failed to register (username may have been claimed)''), wc)) \<and>
   ''Failed to register (username may have been claimed)'' \<noteq> ''Username already taken''"
  by (auto simp: register_def Let_def split: prod.splits)

theorem lost_race_message_witness:
  "register lib ''alice'' ''hunter2'' Registry_lookup Registry_register world_taken
     = (Inr (Failure ''Username already taken''), world_taken) \<and>
   fst (register lib ''alice'' ''hunter2'' Registry_lookup claim_after_rival world0)
     = Inr (Failure ''Failed to register (username may have been claimed)'')"
proof -
  let ?s = "generateSalt lib world0"
  let ?kp = "projr (deriveKeyPair lib ''alice'' ''hunter2'' (fst ?s))"
  let ?entry = "\<lparr>publicKey = toHex lib (KeyPair.publicKey ?kp), salt = fst ?s,
                  profileCid = None, createdAt = now (snd ?s)\<rparr>"
  have nd: "\<not> isl (deriveKeyPair lib ''alice'' ''hunter2'' (fst ?s))"
    by code_simp
  have dk: "deriveKeyPair lib ''alice'' ''hunter2'' (fst ?s) = Inr ?kp"
    using nd by (rule returned_value)
  have "fst (claim_after_rival ''alice'' ?entry (snd ?s)) = Inr False"
    by (simp add: claim_after_rival_def Registry_register_def db_after_salt world0_def)
  then have wr: "claim_after_rival ''alice'' ?entry (snd ?s)
                   = (Inr False, snd (claim_after_rival ''alice'' ?entry (snd ?s)))"
    by (rule with_final_state)
  from lost_race_message
         [where lookupFn = Registry_lookup and u = "''alice''" and w = world_taken
            and existing = rival_entry and wl = world_taken and P = lib
            and p = "''hunter2''" and writeFn = Registry_register]
       lookup_world_taken
  have a: "register lib ''alice'' ''hunter2'' Registry_lookup Registry_register world_taken
             = (Inr (Failure ''Username already taken''), world_taken)"
    by simp
  from lost_race_message
         [where lookupFn = Registry_lookup and u = "''alice''" and w = world0
            and wl = world0 and P = lib and p = "''hunter2''"
            and writeFn = claim_after_rival and kp = ?kp
            and wc = "snd (claim_after_rival ''alice'' ?entry (snd ?s))"]
       lookup_world0 [of "''alice''"] dk wr
  have b: "fst (register lib ''alice'' ''hunter2'' Registry_lookup claim_after_rival world0)
             = Inr (Failure ''Failed to register (username may have been claimed)'')"
    by simp
  from a b show ?thesis by simp
qed

section \<open>Sequential re-registration\<close>

text \<open>
  C5. After a successful \<^verbatim>\<open>register(u, p)\<close>, the registry holds an entry for \<open>u\<close> with the
  public key returned by that call and the salt generated by it; a second
  \<^verbatim>\<open>register(u, p2)\<close> on that state returns the failure \<^verbatim>\<open>Username already taken\<close> and leaves
  the whole state, hence the entry with its salt and public key, as it was.
\<close>

theorem second_register_fails:
  assumes "fst (register P u p Registry_lookup Registry_register w) = Inr (Success st)"
  shows "\<exists>store e.
           db (snd (register P u p Registry_lookup Registry_register w)) = Some store \<and>
           store u = Some e \<and>
           RegistryEntry.publicKey e = publicKeyHex st \<and>
           salt e = fst (generateSalt P w) \<and>
           register P u p2 Registry_lookup Registry_register
             (snd (register P u p Registry_lookup Registry_register w))
           = (Inr (Failure ''Username already taken''),
              snd (register P u p Registry_lookup Registry_register w))"
  using assms
  by (elim register_success_cases) (simp add: register_def Registry_lookup_def)

theorem second_register_fails_witness:
  "succeeded (fst (register lib ''alice'' ''hunter2'' Registry_lookup Registry_register world0)) \<and>
   register lib ''alice'' ''swordfish'' Registry_lookup Registry_register
     (snd (register lib ''alice'' ''hunter2'' Registry_lookup Registry_register world0))
   = (Inr (Failure ''Username already taken''),
      snd (register lib ''alice'' ''hunter2'' Registry_lookup Registry_register world0))"
proof -
  have s: "succeeded
      (fst (register lib ''alice'' ''hunter2'' Registry_lookup Registry_register world0))"
    by code_simp
  then obtain st where h:
    "fst (register lib ''alice'' ''hunter2'' Registry_lookup Registry_register world0)
       = Inr (Success st)"
    by (rule succeededE)
  from second_register_fails [OF h, of "''swordfish''"] s show ?thesis by blast
qed

section \<open>Login verification\<close>

text \<open>
  After \<^verbatim>\<open>register(u, p)\<close>, a login with the empty password (which differs from \<open>p\<close>) does
  not return \<^verbatim>\<open>Invalid password\<close>: the password hash rejects the empty password and its
  error is thrown by \<^verbatim>\<open>login\<close>.
\<close>

theorem wrong_password_counterexample:
  "succeeded (fst (register lib ''alice'' ''hunter2'' Registry_lookup Registry_register world0)) \<and>
   '''' \<noteq> ''hunter2'' \<and>
   fst (login lib ''alice'' '''' Registry_lookup
          (snd (register lib ''alice'' ''hunter2'' Registry_lookup Registry_register world0)))
     = Inl (Error ''Password must be specified'')"
  by code_simp

text \<open>
  C6 (amended). For a username with a stored entry: when derivation from the supplied
  password and the stored salt returns a keypair, \<^verbatim>\<open>login\<close> returns a success result with
  that keypair exactly when the hex encoding of its public key equals the stored
  \<^verbatim>\<open>publicKey\<close>, and the failure \<^verbatim>\<open>Invalid password\<close> otherwise; when derivation throws,
  \<^verbatim>\<open>login\<close> throws the same error. In particular, \<^verbatim>\<open>register(u, p)\<close> followed by
  \<^verbatim>\<open>login(u, p')\<close> with \<open>p' \<noteq> p\<close> returns \<^verbatim>\<open>Invalid password\<close> whenever derivation
  from \<open>p'\<close> and the registered salt returns a keypair and the library functions
  are free of collisions: the text encoder and the hex encoder are injective, and the
  password hash (in the password, at \<^verbatim>\<open>ARGON2_CONFIG\<close>), the hex decoder and the key
  generation (seed to public key) are injective where they return.
\<close>

theorem login_verification:
  "(lookupFn u w = (Inr (Some entry), wl) \<and> deriveKeyPair P u p (salt entry) = Inr kp \<longrightarrow>
      login P u p lookupFn w =
        (if toHex P (KeyPair.publicKey kp) = RegistryEntry.publicKey entry
         then (Inr (Success \<lparr>username = u, keyPair = kp,
                              publicKeyHex = toHex P (KeyPair.publicKey kp)\<rparr>), wl)
         else (Inr (Failure ''Invalid password''), wl))) \<and>
   (lookupFn u w = (Inr (Some entry), wl) \<and> deriveKeyPair P u p (salt entry) = Inl e \<longrightarrow>
      login P u p lookupFn w = (Inl e, wl)) \<and>
   (fst (register P u p Registry_lookup Registry_register w') = Inr (Success st) \<and>
    p' \<noteq> p \<and>
    deriveKeyPair P u p' (fst (generateSalt P w')) = Inr kp' \<and>
    inj (TextEncoder_encode P) \<and> inj (toString_base16 P) \<and>
    (\<forall>pw pw' sb h. argon2id P pw sb ARGON2_CONFIG = Inr h \<and>
        argon2id P pw' sb ARGON2_CONFIG = Inr h \<longrightarrow> pw = pw') \<and>
    (\<forall>h h' sd. fromString_base16 P h = Inr sd \<and>
        fromString_base16 P h' = Inr sd \<longrightarrow> h = h') \<and>
    (\<forall>sd sd' k k'. generateKeyPairFromSeed P sd = Inr k \<and>
        generateKeyPairFromSeed P sd' = Inr k' \<and>
        publicKey_raw k = publicKey_raw k' \<longrightarrow> sd = sd') \<longrightarrow>
      fst (login P u p' Registry_lookup
             (snd (register P u p Registry_lookup Registry_register w')))
        = Inr (Failure ''Invalid password''))"
proof (intro conjI impI)
  assume "lookupFn u w = (Inr (Some entry), wl) \<and> deriveKeyPair P u p (salt entry) = Inr kp"
  then show "login P u p lookupFn w =
        (if toHex P (KeyPair.publicKey kp) = RegistryEntry.publicKey entry
         then (Inr (Success \<lparr>username = u, keyPair = kp,
                              publicKeyHex = toHex P (KeyPair.publicKey kp)\<rparr>), wl)
         else (Inr (Failure ''Invalid password''), wl))"
    by (simp add: login_def Let_def)
next
  assume "lookupFn u w = (Inr (Some entry), wl) \<and> deriveKeyPair P u p (salt entry) = Inl e"
  then show "login P u p lookupFn w = (Inl e, wl)"
    by (simp add: login_def)
next
  assume a: "fst (register P u p Registry_lookup Registry_register w') = Inr (Success st) \<and>
    p' \<noteq> p \<and>
    deriveKeyPair P u p' (fst (generateSalt P w')) = Inr kp' \<and>
    inj (TextEncoder_encode P) \<and> inj (toString_base16 P) \<and>
    (\<forall>pw pw' sb h. argon2id P pw sb ARGON2_CONFIG = Inr h \<and>
        argon2id P pw' sb ARGON2_CONFIG = Inr h \<longrightarrow> pw = pw') \<and>
    (\<forall>h h' sd. fromString_base16 P h = Inr sd \<and>
        fromString_base16 P h' = Inr sd \<longrightarrow> h = h') \<and>
    (\<forall>sd sd' k k'. generateKeyPairFromSeed P sd = Inr k \<and>
        generateKeyPairFromSeed P sd' = Inr k' \<and>
        publicKey_raw k = publicKey_raw k' \<longrightarrow> sd = sd')"
  then have r: "fst (register P u p Registry_lookup Registry_register w') = Inr (Success st)"
    and ne: "p' \<noteq> p"
    and d': "deriveKeyPair P u p' (fst (generateSalt P w')) = Inr kp'"
    and enc: "inj (TextEncoder_encode P)" and hex: "inj (toString_base16 P)"
    and hash: "\<forall>pw pw' sb h. argon2id P pw sb ARGON2_CONFIG = Inr h \<and>
        argon2id P pw' sb ARGON2_CONFIG = Inr h \<longrightarrow> pw = pw'"
    and dec: "\<forall>h h' sd. fromString_base16 P h = Inr sd \<and>
        fromString_base16 P h' = Inr sd \<longrightarrow> h = h'"
    and gen: "\<forall>sd sd' k k'. generateKeyPairFromSeed P sd = Inr k \<and>
        generateKeyPairFromSeed P sd' = Inr k' \<and>
        publicKey_raw k = publicKey_raw k' \<longrightarrow> sd = sd'"
    by simp_all
  from r obtain store kp0 where
    s: "deriveKeyPair P u p (fst (generateSalt P w')) = Inr kp0"
       "snd (register P u p Registry_lookup Registry_register w') =
          (snd (generateSalt P w'))\<lparr>db := Some (store(u \<mapsto>
            \<lparr>publicKey = toHex P (KeyPair.publicKey kp0), salt = fst (generateSalt P w'),
             profileCid = None, createdAt = now (snd (generateSalt P w'))\<rparr>))\<rparr>"
    by (rule register_success_cases)
  have "toHex P (KeyPair.publicKey kp') \<noteq> toHex P (KeyPair.publicKey kp0)"
  proof
    assume "toHex P (KeyPair.publicKey kp') = toHex P (KeyPair.publicKey kp0)"
    with enc hex hash dec gen d' s(1) have "p' = p"
      by (rule deriveKeyPair_collision_free)
    with ne show False by simp
  qed
  with d' s(2) show "fst (login P u p' Registry_lookup
             (snd (register P u p Registry_lookup Registry_register w')))
        = Inr (Failure ''Invalid password'')"
    by (simp add: login_def Registry_lookup_def Let_def)
qed

theorem login_verification_witness:
  "login lib ''alice'' ''hunter2'' Registry_lookup world_taken
     = (Inr (Failure ''Invalid password''), world_taken) \<and>
   login lib ''alice'' '''' Registry_lookup world_taken
     = (Inl (Error ''Password must be specified''), world_taken) \<and>
   succeeded (fst (register lib_plain ''alice'' ''hunter2'' Registry_lookup Registry_register
                     world0)) \<and>
   ''hunter3'' \<noteq> ''hunter2'' \<and>
   fst (login lib_plain ''alice'' ''hunter3'' Registry_lookup
          (snd (register lib_plain ''alice'' ''hunter2'' Registry_lookup Registry_register
                  world0)))
     = Inr (Failure ''Invalid password'')"
proof -
  let ?kp = "projr (deriveKeyPair lib ''alice'' ''hunter2'' (salt rival_entry))"
  let ?s = "fst (generateSalt lib_plain world0)"
  let ?k3 = "projr (deriveKeyPair lib_plain ''alice'' ''hunter3'' ?s)"
  have "\<not> isl (deriveKeyPair lib ''alice'' ''hunter2'' (salt rival_entry))"
    by code_simp
  then have dk: "deriveKeyPair lib ''alice'' ''hunter2'' (salt rival_entry) = Inr ?kp"
    by (rule returned_value)
  have ne: "toHex lib (KeyPair.publicKey ?kp) \<noteq> RegistryEntry.publicKey rival_entry"
    by code_simp
  have de: "deriveKeyPair lib ''alice'' '''' (salt rival_entry)
              = Inl (Error ''Password must be specified'')"
    by code_simp
  have s: "succeeded (fst (register lib_plain ''alice'' ''hunter2'' Registry_lookup
                             Registry_register world0))"
    by code_simp
  then obtain st where r:
    "fst (register lib_plain ''alice'' ''hunter2'' Registry_lookup Registry_register world0)
       = Inr (Success st)"
    by (rule succeededE)
  have "\<not> isl (deriveKeyPair lib_plain ''alice'' ''hunter3'' ?s)"
    by code_simp
  then have d3: "deriveKeyPair lib_plain ''alice'' ''hunter3'' ?s = Inr ?k3"
    by (rule returned_value)
  have pw: "''hunter3'' \<noteq> ''hunter2''"
    by simp
  from login_verification
         [where lookupFn = Registry_lookup and u = "''alice''" and w = world_taken
            and entry = rival_entry and wl = world_taken and P = lib and p = "''hunter2''"
            and kp = ?kp]
       lookup_world_taken dk ne
  have a: "login lib ''alice'' ''hunter2'' Registry_lookup world_taken
             = (Inr (Failure ''Invalid password''), world_taken)"
    by simp
  from login_verification
         [where lookupFn = Registry_lookup and u = "''alice''" and w = world_taken
            and entry = rival_entry and wl = world_taken and P = lib and p = "''''"
            and e = "Error ''Password must be specified''"]
       lookup_world_taken de
  have b: "login lib ''alice'' '''' Registry_lookup world_taken
             = (Inl (Error ''Password must be specified''), world_taken)"
    by simp
  from login_verification
         [where P = lib_plain and u = "''alice''" and p = "''hunter2''" and w' = world0
            and st = st and p' = "''hunter3''" and kp' = ?k3]
       r pw d3 lib_plain_injective
  have c: "fst (login lib_plain ''alice'' ''hunter3'' Registry_lookup
             (snd (register lib_plain ''alice'' ''hunter2'' Registry_lookup Registry_register
                     world0)))
           = Inr (Failure ''Invalid password'')"
    by blast
  from a b s pw c show ?thesis by simp
qed

section \<open>Unknown username\<close>

text \<open>
  C7. When the lookup finds no entry for the username, \<^verbatim>\<open>login\<close> returns the failure
  \<^verbatim>\<open>Username not found\<close>, never \<^verbatim>\<open>Invalid password\<close>, whatever the password and whatever
  the derivation primitives would do: no key derivation takes part in the outcome.
\<close>

theorem login_unknown_username:
  assumes "lookupFn u w = (Inr None, wl)"
  shows "login P u p lookupFn w = (Inr (Failure ''Username not found''), wl) \<and>
         fst (login P u p lookupFn w) \<noteq> Inr (Failure ''Invalid password'')"
  using assms by (simp add: login_def)

theorem login_unknown_username_witness:
  "login lib ''nonexistent'' ''anything'' Registry_lookup world0
     = (Inr (Failure ''Username not found''), world0) \<and>
   fst (login lib ''nonexistent'' ''anything'' Registry_lookup world0)
     \<noteq> Inr (Failure ''Invalid password'')"
  using login_unknown_username
          [where lookupFn = Registry_lookup and u = "''nonexistent''" and w = world0
             and wl = world0 and P = lib and p = "''anything''"]
        lookup_world0 [of "''nonexistent''"]
  by simp

section \<open>Derivation parameters and salt length\<close>

text \<open>
  C8. The parameter set is the constant \<^verbatim>\<open>ARGON2_CONFIG\<close>: parallelism 1, 2 iterations,
  memory size 4096 and a 32-byte output. \<^verbatim>\<open>deriveKeyPair\<close> has no parameter for it and asks
  the password hash for this parameter set only: replacing the hash by any function that
  agrees with it on \<^verbatim>\<open>ARGON2_CONFIG\<close> changes no derivation. \<^verbatim>\<open>generateSalt\<close> encodes the
  16 bytes it draws from the random source, and the entry written by a successful
  \<^verbatim>\<open>register\<close> carries the encoding of the next 16 bytes of that source as its salt.
\<close>

theorem fixed_parameters:
  "parallelism ARGON2_CONFIG = 1 \<and> iterations ARGON2_CONFIG = 2 \<and>
   memorySize ARGON2_CONFIG = 4096 \<and> hashLength ARGON2_CONFIG = 32 \<and>
   ((\<forall>pw sb. h pw sb ARGON2_CONFIG = argon2id P pw sb ARGON2_CONFIG) \<longrightarrow>
      deriveKeyPair (P\<lparr>argon2id := h\<rparr>) u p s = deriveKeyPair P u p s) \<and>
   length (fst (getRandomValues (replicate 16 0) w)) = 16 \<and>
   fst (generateSalt P w) = toString_base64 P (fst (getRandomValues (replicate 16 0) w)) \<and>
   (fst (register P u p Registry_lookup Registry_register w) = Inr (Success st) \<longrightarrow>
      (\<exists>store e. db (snd (register P u p Registry_lookup Registry_register w)) = Some store \<and>
         store u = Some e \<and>
         salt e = toString_base64 P (map (entropy w) [drawn w ..< drawn w + 16])))"
proof -
  have cfg: "parallelism ARGON2_CONFIG = 1 \<and> iterations ARGON2_CONFIG = 2 \<and>
      memorySize ARGON2_CONFIG = 4096 \<and> hashLength ARGON2_CONFIG = 32"
    by (simp add: ARGON2_CONFIG_def)
  have drv: "(\<forall>pw sb. h pw sb ARGON2_CONFIG = argon2id P pw sb ARGON2_CONFIG) \<longrightarrow>
      deriveKeyPair (P\<lparr>argon2id := h\<rparr>) u p s = deriveKeyPair P u p s"
    by (auto simp: deriveKeyPair_def generateEd25519FromSeed_def Let_def split: sum.splits)
  have len: "length (fst (getRandomValues (replicate 16 0) w)) = 16"
    by (simp add: getRandomValues_def)
  have gs: "fst (generateSalt P w)
              = toString_base64 P (fst (getRandomValues (replicate 16 0) w))"
    by (simp add: generateSalt_def split: prod.splits)
  have reg: "fst (register P u p Registry_lookup Registry_register w) = Inr (Success st) \<longrightarrow>
      (\<exists>store e. db (snd (register P u p Registry_lookup Registry_register w)) = Some store \<and>
         store u = Some e \<and>
         salt e = toString_base64 P (map (entropy w) [drawn w ..< drawn w + 16]))"
  proof
    assume "fst (register P u p Registry_lookup Registry_register w) = Inr (Success st)"
    then show "\<exists>store e.
         db (snd (register P u p Registry_lookup Registry_register w)) = Some store \<and>
         store u = Some e \<and>
         salt e = toString_base64 P (map (entropy w) [drawn w ..< drawn w + 16])"
      by (elim register_success_cases) (simp add: generateSalt_def getRandomValues_def)
  qed
  from cfg drv len gs reg show ?thesis by blast
qed

theorem fixed_parameters_witness:
  "deriveKeyPair (lib\<lparr>argon2id := pinned_hash\<rparr>) ''alice'' ''hunter2'' (salt rival_entry)
     = deriveKeyPair lib ''alice'' ''hunter2'' (salt rival_entry) \<and>
   succeeded (fst (register lib ''alice'' ''hunter2'' Registry_lookup Registry_register world0)) \<and>
   (\<exists>store e.
      db (snd (register lib ''alice'' ''hunter2'' Registry_lookup Registry_register world0))
        = Some store \<and>
      store ''alice'' = Some e \<and>
      salt e = toString_base64 lib (map (entropy world0) [drawn world0 ..< drawn world0 + 16]))"
proof -
  have agree: "\<forall>pw sb. pinned_hash pw sb ARGON2_CONFIG = argon2id lib pw sb ARGON2_CONFIG"
    by (simp add: pinned_hash_def lib_def)
  have s: "succeeded
      (fst (register lib ''alice'' ''hunter2'' Registry_lookup Registry_register world0))"
    by code_simp
  then obtain st where h:
    "fst (register lib ''alice'' ''hunter2'' Registry_lookup Registry_register world0)
       = Inr (Success st)"
    by (rule succeededE)
  from fixed_parameters
         [where h = pinned_hash and P = lib and u = "''alice''" and p = "''hunter2''"
            and s = "salt rival_entry" and w = world0 and st = st]
       agree s h
  show ?thesis by blast
qed

section \<open>Empty password\<close>

text \<open>
  With the empty password, \<^verbatim>\<open>register\<close> does not fail before derivation: with a password
  hash that rejects the empty password, the error it gets is the hash's own, thrown after
  the 16 salt bytes have been drawn; with a password hash that accepts every password,
  \<^verbatim>\<open>register\<close> and the following \<^verbatim>\<open>login\<close> succeed.
\<close>

theorem empty_password_counterexample:
  "fst (register lib ''alice'' '''' Registry_lookup Registry_register world0)
     = Inl (Error ''Password must be specified'') \<and>
   drawn (snd (register lib ''alice'' '''' Registry_lookup Registry_register world0)) = 16 \<and>
   succeeded (fst (register lib_unchecked ''alice'' '''' Registry_lookup Registry_register
                     world0)) \<and>
   succeeded (fst (login lib_unchecked ''alice'' '''' Registry_lookup
     (snd (register lib_unchecked ''alice'' '''' Registry_lookup Registry_register world0))))"
  by code_simp

text \<open>
  C9 (amended). \<^verbatim>\<open>register\<close> and \<^verbatim>\<open>login\<close> make no check of the password. With the empty
  password they call \<^verbatim>\<open>deriveKeyPair\<close> with it (after the lookup, and for \<^verbatim>\<open>register\<close> after
  the salt has been generated). If that call throws, they throw the same error; if it
  returns a keypair, they go on as for any password: \<^verbatim>\<open>register\<close> succeeds on a free
  username and \<^verbatim>\<open>login\<close> succeeds when the key matches the stored one. \<^verbatim>\<open>deriveKeyPair\<close>
  performs no validation of its own: it returns whenever the library functions it calls
  return.
\<close>

theorem empty_password_reaches_derivation:
  "(lookupFn u w = (Inr None, wl) \<and>
    deriveKeyPair P u '''' (fst (generateSalt P wl)) = Inl e \<longrightarrow>
      register P u '''' lookupFn writeFn w = (Inl e, snd (generateSalt P wl))) \<and>
   (db w = Some store \<and> store u = None \<and>
    deriveKeyPair P u '''' (fst (generateSalt P w)) = Inr kp \<longrightarrow>
      fst (register P u '''' Registry_lookup Registry_register w)
        = Inr (Success \<lparr>username = u, keyPair = kp,
                         publicKeyHex = toHex P (KeyPair.publicKey kp)\<rparr>)) \<and>
   (lookupFn u w = (Inr (Some entry), wl) \<and>
    deriveKeyPair P u '''' (salt entry) = Inl e \<longrightarrow>
      login P u '''' lookupFn w = (Inl e, wl)) \<and>
   (lookupFn u w = (Inr (Some entry), wl) \<and>
    deriveKeyPair P u '''' (salt entry) = Inr kp \<and>
    toHex P (KeyPair.publicKey kp) = RegistryEntry.publicKey entry \<longrightarrow>
      login P u '''' lookupFn w
        = (Inr (Success \<lparr>username = u, keyPair = kp,
                          publicKeyHex = toHex P (KeyPair.publicKey kp)\<rparr>), wl)) \<and>
   (fromString_base64 P s = Inr sb \<and>
    argon2id P (TextEncoder_encode P '''') sb ARGON2_CONFIG = Inr hh \<and>
    fromString_base16 P hh = Inr seed \<and> generateKeyPairFromSeed P seed = Inr k \<longrightarrow>
      deriveKeyPair P u '''' s
        = Inr \<lparr>KeyPair.publicKey = publicKey_raw k, privateKey = raw k\<rparr>)"
proof (intro conjI impI)
  assume "lookupFn u w = (Inr None, wl) \<and>
    deriveKeyPair P u '''' (fst (generateSalt P wl)) = Inl e"
  then show "register P u '''' lookupFn writeFn w = (Inl e, snd (generateSalt P wl))"
    by (auto simp: register_def split: prod.splits)
next
  assume "db w = Some store \<and> store u = None \<and>
    deriveKeyPair P u '''' (fst (generateSalt P w)) = Inr kp"
  then show "fst (register P u '''' Registry_lookup Registry_register w)
        = Inr (Success \<lparr>username = u, keyPair = kp,
                         publicKeyHex = toHex P (KeyPair.publicKey kp)\<rparr>)"
    by (simp add: register_def Registry_lookup_def Registry_register_def Let_def
          generateSalt_def getRandomValues_def)
next
  assume "lookupFn u w = (Inr (Some entry), wl) \<and>
    deriveKeyPair P u '''' (salt entry) = Inl e"
  then show "login P u '''' lookupFn w = (Inl e, wl)"
    by (simp add: login_def)
next
  assume "lookupFn u w = (Inr (Some entry), wl) \<and>
    deriveKeyPair P u '''' (salt entry) = Inr kp \<and>
    toHex P (KeyPair.publicKey kp) = RegistryEntry.publicKey entry"
  then show "login P u '''' lookupFn w
        = (Inr (Success \<lparr>username = u, keyPair = kp,
                          publicKeyHex = toHex P (KeyPair.publicKey kp)\<rparr>), wl)"
    by (simp add: login_def Let_def)
next
  assume "fromString_base64 P s = Inr sb \<and>
    argon2id P (TextEncoder_encode P '''') sb ARGON2_CONFIG = Inr hh \<and>
    fromString_base16 P hh = Inr seed \<and> generateKeyPairFromSeed P seed = Inr k"
  then show "deriveKeyPair P u '''' s
        = Inr \<lparr>KeyPair.publicKey = publicKey_raw k, privateKey = raw k\<rparr>"
    by (simp add: deriveKeyPair_def generateEd25519FromSeed_def)
qed

theorem empty_password_reaches_derivation_witness:
  "register lib ''alice'' '''' Registry_lookup Registry_register world0
     = (Inl (Error ''Password must be specified''), snd (generateSalt lib world0)) \<and>
   succeeded (fst (register lib_unchecked ''alice'' '''' Registry_lookup Registry_register
                     world0)) \<and>
   login lib ''alice'' '''' Registry_lookup world_taken
     = (Inl (Error ''Password must be specified''), world_taken) \<and>
   succeeded (fst (login lib_unchecked ''alice'' '''' Registry_lookup
     (snd (register lib_unchecked ''alice'' '''' Registry_lookup Registry_register world0)))) \<and>
   \<not> isl (deriveKeyPair lib_unchecked ''alice'' '''' (salt rival_entry))"
proof -
  let ?s = "generateSalt lib world0"
  let ?su = "generateSalt lib_unchecked world0"
  let ?ku = "projr (deriveKeyPair lib_unchecked ''alice'' '''' (fst ?su))"
  let ?wu = "snd (register lib_unchecked ''alice'' '''' Registry_lookup Registry_register world0)"
  let ?eu = "\<lparr>publicKey = toHex lib_unchecked (KeyPair.publicKey ?ku), salt = fst ?su,
               profileCid = None, createdAt = now (snd ?su)\<rparr>"
  let ?sb = "projr (fromString_base64 lib_unchecked (salt rival_entry))"
  let ?hh = "projr (argon2id lib_unchecked (TextEncoder_encode lib_unchecked '''') ?sb
                      ARGON2_CONFIG)"
  let ?seed = "projr (fromString_base16 lib_unchecked ?hh)"
  let ?k = "projr (generateKeyPairFromSeed lib_unchecked ?seed)"
  have de: "deriveKeyPair lib ''alice'' '''' (fst ?s)
              = Inl (Error ''Password must be specified'')"
    by code_simp
  have "\<not> isl (deriveKeyPair lib_unchecked ''alice'' '''' (fst ?su))"
    by code_simp
  then have du: "deriveKeyPair lib_unchecked ''alice'' '''' (fst ?su) = Inr ?ku"
    by (rule returned_value)
  have d0: "db world0 = Some Map.empty"
    by (simp add: world0_def)
  have dt: "deriveKeyPair lib ''alice'' '''' (salt rival_entry)
              = Inl (Error ''Password must be specified'')"
    by code_simp
  from empty_password_reaches_derivation
         [where lookupFn = Registry_lookup and u = "''alice''" and w = world0 and wl = world0
            and P = lib and e = "Error ''Password must be specified''"
            and writeFn = Registry_register]
       lookup_world0 [of "''alice''"] de
  have a: "register lib ''alice'' '''' Registry_lookup Registry_register world0
             = (Inl (Error ''Password must be specified''), snd ?s)"
    by simp
  from empty_password_reaches_derivation
         [where P = lib_unchecked and u = "''alice''" and w = world0 and store = Map.empty
            and kp = ?ku]
       d0 du
  have b: "fst (register lib_unchecked ''alice'' '''' Registry_lookup Registry_register world0)
             = Inr (Success \<lparr>username = ''alice'', keyPair = ?ku,
                              publicKeyHex = toHex lib_unchecked (KeyPair.publicKey ?ku)\<rparr>)"
    by simp
  from empty_password_reaches_derivation
         [where lookupFn = Registry_lookup and u = "''alice''" and w = world_taken
            and wl = world_taken and entry = rival_entry and P = lib
            and e = "Error ''Password must be specified''"]
       lookup_world_taken dt
  have c: "login lib ''alice'' '''' Registry_lookup world_taken
             = (Inl (Error ''Password must be specified''), world_taken)"
    by simp
  have lu: "Registry_lookup ''alice'' ?wu = (Inr (Some ?eu), ?wu)"
    using b du d0
    by (elim register_success_cases) (simp add: Registry_lookup_def)
  have su: "deriveKeyPair lib_unchecked ''alice'' '''' (salt ?eu) = Inr ?ku"
    using du by simp
  from empty_password_reaches_derivation
         [where lookupFn = Registry_lookup and u = "''alice''" and w = ?wu and wl = ?wu
            and entry = ?eu and P = lib_unchecked and kp = ?ku]
       lu su
  have d: "login lib_unchecked ''alice'' '''' Registry_lookup ?wu
             = (Inr (Success \<lparr>username = ''alice'', keyPair = ?ku,
                   publicKeyHex = toHex lib_unchecked (KeyPair.publicKey ?ku)\<rparr>), ?wu)"
    by simp
  have "\<not> isl (fromString_base64 lib_unchecked (salt rival_entry))"
    by code_simp
  then have p1: "fromString_base64 lib_unchecked (salt rival_entry) = Inr ?sb"
    by (rule returned_value)
  have "\<not> isl (argon2id lib_unchecked (TextEncoder_encode lib_unchecked '''') ?sb
                  ARGON2_CONFIG)"
    by code_simp
  then have p2: "argon2id lib_unchecked (TextEncoder_encode lib_unchecked '''') ?sb
                   ARGON2_CONFIG = Inr ?hh"
    by (rule returned_value)
  have "\<not> isl (fromString_base16 lib_unchecked ?hh)"
    by code_simp
  then have p3: "fromString_base16 lib_unchecked ?hh = Inr ?seed"
    by (rule returned_value)
  have "\<not> isl (generateKeyPairFromSeed lib_unchecked ?seed)"
    by code_simp
  then have p4: "generateKeyPairFromSeed lib_unchecked ?seed = Inr ?k"
    by (rule returned_value)
  from empty_password_reaches_derivation
         [where P = lib_unchecked and s = "salt rival_entry" and sb = ?sb and hh = ?hh
            and seed = ?seed and k = ?k and u = "''alice''"]
       p1 p2 p3 p4
  have e: "deriveKeyPair lib_unchecked ''alice'' '''' (salt rival_entry)
             = Inr \<lparr>KeyPair.publicKey = publicKey_raw ?k, privateKey = raw ?k\<rparr>"
    by blast
  from a b c d e show ?thesis by (simp add: succeeded_def)
qed

section \<open>Session state of the hook\<close>

text \<open>
  C10. In \<^verbatim>\<open>useIdentity\<close>, a \<^verbatim>\<open>login\<close> or \<^verbatim>\<open>register\<close> that returns a failure result leaves
  the stored identity as it was; the stored identity changes only when the call returns a
  success result, and then it is the identity returned by the identity function;
  \<^verbatim>\<open>logout\<close> always clears it.
\<close>

theorem session_identity_updates:
  "(fst (useIdentity_login P u p (identity, w)) = Inr (Failure err) \<longrightarrow>
      fst (snd (useIdentity_login P u p (identity, w))) = identity) \<and>
   (fst (useIdentity_register P u p (identity, w)) = Inr (Failure err) \<longrightarrow>
      fst (snd (useIdentity_register P u p (identity, w))) = identity) \<and>
   (fst (snd (useIdentity_login P u p (identity, w))) \<noteq> identity \<longrightarrow>
      fst (useIdentity_login P u p (identity, w)) = Inr (Success ())) \<and>
   (fst (snd (useIdentity_register P u p (identity, w))) \<noteq> identity \<longrightarrow>
      fst (useIdentity_register P u p (identity, w)) = Inr (Success ())) \<and>
   (fst (useIdentity_login P u p (identity, w)) = Inr (Success ()) \<longrightarrow>
      fst (login P u p Registry_lookup w)
      = Inr (Success (the (fst (snd (useIdentity_login P u p (identity, w))))))) \<and>
   (fst (useIdentity_register P u p (identity, w)) = Inr (Success ()) \<longrightarrow>
      fst (register P u p Registry_lookup Registry_register w)
      = Inr (Success (the (fst (snd (useIdentity_register P u p (identity, w))))))) \<and>
   fst (logout (identity, w)) = None"
  by (auto simp: useIdentity_login_def useIdentity_register_def logout_def
      split: prod.splits sum.splits Result.splits)

theorem session_identity_updates_witness:
  "fst (useIdentity_register lib ''alice'' ''hunter2'' (None, world0)) = Inr (Success ()) \<and>
   fst (register lib ''alice'' ''hunter2'' Registry_lookup Registry_register world0)
     = Inr (Success (the (fst (snd
         (useIdentity_register lib ''alice'' ''hunter2'' (None, world0)))))) \<and>
   fst (snd (useIdentity_login lib ''alice'' ''wrong''
     (fst (snd (useIdentity_register lib ''alice'' ''hunter2'' (None, world0))),
      snd (snd (useIdentity_register lib ''alice'' ''hunter2'' (None, world0))))))
     = fst (snd (useIdentity_register lib ''alice'' ''hunter2'' (None, world0))) \<and>
   fst (snd (useIdentity_register lib ''alice'' ''swordfish''
     (fst (snd (useIdentity_register lib ''alice'' ''hunter2'' (None, world0))),
      snd (snd (useIdentity_register lib ''alice'' ''hunter2'' (None, world0))))))
     = fst (snd (useIdentity_register lib ''alice'' ''hunter2'' (None, world0))) \<and>
   fst (useIdentity_login lib ''alice'' ''hunter2''
     (None, snd (snd (useIdentity_register lib ''alice'' ''hunter2'' (None, world0)))))
     = Inr (Success ()) \<and>
   fst (logout
     (fst (snd (useIdentity_register lib ''alice'' ''hunter2'' (None, world0))),
      snd (snd (useIdentity_register lib ''alice'' ''hunter2'' (None, world0))))) = None"
proof -
  let ?s = "snd (useIdentity_register lib ''alice'' ''hunter2'' (None, world0))"
  have h1: "fst (useIdentity_login lib ''alice'' ''wrong'' (fst ?s, snd ?s))
              = Inr (Failure ''Invalid password'')"
    by code_simp
  have h2: "fst (useIdentity_register lib ''alice'' ''swordfish'' (fst ?s, snd ?s))
              = Inr (Failure ''Username already taken'')"
    by code_simp
  have h3: "fst (snd (useIdentity_login lib ''alice'' ''hunter2'' (None, snd ?s))) \<noteq> None"
    by code_simp
  have h4: "fst ?s \<noteq> None"
    by code_simp
  from session_identity_updates
         [where P = lib and u = "''alice''" and p = "''wrong''" and identity = "fst ?s"
            and w = "snd ?s" and err = "''Invalid password''"] h1
  have a: "fst (snd (useIdentity_login lib ''alice'' ''wrong'' (fst ?s, snd ?s))) = fst ?s"
    by blast
  from session_identity_updates
         [where P = lib and u = "''alice''" and p = "''swordfish''" and identity = "fst ?s"
            and w = "snd ?s" and err = "''Username already taken''"] h2
  have b: "fst (snd (useIdentity_register lib ''alice'' ''swordfish'' (fst ?s, snd ?s)))
             = fst ?s"
    by blast
  from session_identity_updates
         [where P = lib and u = "''alice''" and p = "''hunter2''" and identity = None
            and w = "snd ?s"] h3
  have c: "fst (useIdentity_login lib ''alice'' ''hunter2'' (None, snd ?s))
             = Inr (Success ())"
    by blast
  from session_identity_updates
         [where P = lib and u = "''alice''" and p = "''hunter2''" and identity = None
            and w = world0] h4
  have d: "fst (useIdentity_register lib ''alice'' ''hunter2'' (None, world0))
             = Inr (Success ()) \<and>
           fst (register lib ''alice'' ''hunter2'' Registry_lookup Registry_register world0)
             = Inr (Success (the (fst ?s)))"
    by blast
  from session_identity_updates
         [where P = lib and u = "''alice''" and p = "''hunter2''" and identity = "fst ?s"
            and w = "snd ?s"]
  have e: "fst (logout (fst ?s, snd ?s)) = None"
    by blast
  from a b c d e show ?thesis by simp
qed

end
